theory Spec2Isabelle
  imports Complex_Main
begin

section \<open>The generation driver \<^verbatim>\<open>generate.py\<close>\<close>

text \<open>
  The script is a straight-line driver. This theory embeds the two pieces of logic it
  holds: the settings and the resolution of the control argument (lines 111 to 165 of
  \<^verbatim>\<open>generate.py\<close>) and the choice of the decoding procedure (lines 207 to 219).

  Conventions of the embedding:
  \<^item> Every \<^verbatim>\<open>assert\<close> and every exception is a value \<open>Inl e\<close> of \<open>error + 'a\<close>;
    the script has no handler, so the first error ends the run.
  \<^item> The file system, the random draw of \<^verbatim>\<open>np.random.choice\<close>, \<^verbatim>\<open>torch.load\<close>,
    Python's builtins \<^verbatim>\<open>float\<close> and \<^verbatim>\<open>int\<close>, and the parts of \<^verbatim>\<open>sequence.py\<close>
    and \<^verbatim>\<open>utils.py\<close> the script calls are not in \<^verbatim>\<open>generate.py\<close>. They are the
    fields of a record \<open>world\<close>, one field per call, and every theorem holds for all worlds.
  \<^item> A floating-point number is a value of \<open>float64\<close>: a finite number, an infinity or
    NaN. The arithmetic the script asks of numpy, the sum of an array and the division,
    is not arithmetic on the reals (it rounds and it overflows), so it is numpy's: two
    more fields of \<open>world\<close>. The comparison with 0 and the truth value of a number do
    not round and are defined here. The conversion of a tensor to \<^verbatim>\<open>float32\<close> keeps
    the values.
  \<^item> An array or tensor is a nested list, outermost dimension first; \<^verbatim>\<open>shape[0]\<close> is
    the length of the outer list.
\<close>

subsection \<open>Errors\<close>

datatype error =
    Session_not_a_file          \<comment> \<open>line 127: \<^verbatim>\<open>assert os.path.isfile(sess_path)\<close>\<close>
  | No_file_in_directory        \<comment> \<open>line 133: \<^verbatim>\<open>assert len(files) > 0\<close>\<close>
  | Load_failed                 \<comment> \<open>line 135: \<^verbatim>\<open>torch.load\<close> raises, or its result does not unpack\<close>
  | Recover_failed              \<comment> \<open>line 136: \<^verbatim>\<open>recover_compressed_array\<close> raises\<close>
  | Negative_dimension          \<comment> \<open>lines 140, 158: \<^verbatim>\<open>repeat\<close> with a negative count\<close>
  | Unpack_failed               \<comment> \<open>line 144: \<^verbatim>\<open>split(';')\<close> does not give two parts\<close>
  | Float_failed                \<comment> \<open>line 149: \<^verbatim>\<open>float\<close> raises ValueError\<close>
  | Histogram_size              \<comment> \<open>line 150: \<^verbatim>\<open>assert pitch_histogram.size == 12\<close>\<close>
  | Histogram_negative          \<comment> \<open>line 151: \<^verbatim>\<open>assert np.all(pitch_histogram >= 0)\<close>\<close>
  | Int_failed                  \<comment> \<open>line 154: \<^verbatim>\<open>int\<close> raises ValueError\<close>
  | Density_out_of_range        \<comment> \<open>line 155: \<^verbatim>\<open>assert note_density in range(...)\<close>\<close>
  | No_length                   \<comment> \<open>line 165: \<^verbatim>\<open>assert max_len > 0\<close>\<close>

subsection \<open>Data\<close>

text \<open>The options \<^verbatim>\<open>getopt\<close> returns (lines 18 to 87), those the embedded lines read.\<close>

record options =
  opt_control :: "string option"    \<comment> \<open>\<^verbatim>\<open>-c\<close>, default \<^verbatim>\<open>None\<close>\<close>
  opt_batch_size :: int             \<comment> \<open>\<^verbatim>\<open>-b\<close>, default 8\<close>
  opt_sess_path :: string           \<comment> \<open>\<^verbatim>\<open>-s\<close>\<close>
  opt_max_len :: int                \<comment> \<open>\<^verbatim>\<open>-l\<close>, default 0\<close>
  opt_greedy_ratio :: real          \<comment> \<open>\<^verbatim>\<open>-g\<close>, default 1.0\<close>
  opt_beam_size :: int              \<comment> \<open>\<^verbatim>\<open>-B\<close>, default 0\<close>
  opt_temperature :: real           \<comment> \<open>\<^verbatim>\<open>-T\<close>, default 1.0\<close>

text \<open>
  The values of a Python \<^verbatim>\<open>float\<close> and of a numpy \<^verbatim>\<open>float64\<close>. The sign of a zero
  is not kept: the embedded lines never divide by a zero.
\<close>

datatype float64 = Finite real | PInf | NInf | NaN

text \<open>\<^verbatim>\<open>x >= 0\<close>: false of NaN.\<close>

fun ge0 :: "float64 \<Rightarrow> bool" where
  "ge0 (Finite r) = (0 \<le> r)"
| "ge0 PInf = True"
| "ge0 NInf = False"
| "ge0 NaN = False"

text \<open>\<^verbatim>\<open>bool(x)\<close>: false of zero only.\<close>

fun truthy :: "float64 \<Rightarrow> bool" where
  "truthy (Finite r) = (r \<noteq> 0)"
| "truthy PInf = True"
| "truthy NInf = True"
| "truthy NaN = True"

text \<open>The class \<^verbatim>\<open>Control\<close> of \<^verbatim>\<open>sequence.py\<close>, as line 156 constructs it.\<close>

record control =
  pitch_histogram :: "float64 list"
  note_density :: int

type_synonym array = "float64 list list"          \<comment> \<open>shape \<open>[steps, dim]\<close>\<close>
type_synonym tensor = "float64 list list list"    \<comment> \<open>shape \<open>[steps, batch, dim]\<close>\<close>

text \<open>What the script does not define, one field per call site.\<close>

record 'c world =
  isfile :: "string \<Rightarrow> bool"                           \<comment> \<open>\<^verbatim>\<open>os.path.isfile\<close>\<close>
  isdir :: "string \<Rightarrow> bool"                            \<comment> \<open>\<^verbatim>\<open>os.path.isdir\<close>\<close>
  find_files_by_extensions :: "string \<Rightarrow> string list"  \<comment> \<open>line 132, as a list\<close>
  random_draw :: nat                                   \<comment> \<open>the draw of \<^verbatim>\<open>np.random.choice\<close>\<close>
  torch_load :: "string \<Rightarrow> 'c option"                  \<comment> \<open>line 135; \<open>None\<close> when it raises\<close>
  recover_compressed_array :: "'c \<Rightarrow> array option"     \<comment> \<open>line 136; \<open>None\<close> when it raises\<close>
  py_float :: "string \<Rightarrow> float64 option"               \<comment> \<open>\<^verbatim>\<open>float\<close>; \<open>None\<close> is ValueError\<close>
  py_int :: "string \<Rightarrow> int option"                     \<comment> \<open>\<^verbatim>\<open>int\<close>; \<open>None\<close> is ValueError\<close>
  np_sum :: "float64 list \<Rightarrow> float64"                 \<comment> \<open>\<^verbatim>\<open>a.sum()\<close> of a float64 array\<close>
  np_divide :: "float64 \<Rightarrow> float64 \<Rightarrow> float64"        \<comment> \<open>\<^verbatim>\<open>x / y\<close> of float64 numbers\<close>
  note_density_bins :: nat                             \<comment> \<open>\<^verbatim>\<open>len(ControlSeq.note_density_bins)\<close>\<close>
  to_array :: "control \<Rightarrow> float64 list"                \<comment> \<open>\<^verbatim>\<open>Control.to_array\<close>\<close>

subsection \<open>Settings (lines 111 to 125)\<close>

text \<open>
  Lines 123 and 125 overwrite a numeric setting with the string \<^verbatim>\<open>'DISABLED'\<close>; a
  setting is therefore either a number or that mark.
\<close>

datatype 'a setting = Number 'a | DISABLED

record settings =
  use_beam_search :: bool
  greedy_ratio :: "real setting"
  beam_size :: "int setting"

definition sampling_settings :: "options \<Rightarrow> settings" where
  "sampling_settings opt =
     (if 0 < opt_beam_size opt
      then \<lparr>use_beam_search = True, greedy_ratio = DISABLED,
            beam_size = Number (opt_beam_size opt)\<rparr>
      else \<lparr>use_beam_search = False, greedy_ratio = Number (opt_greedy_ratio opt),
            beam_size = DISABLED\<rparr>)"

subsection \<open>Generation dispatch (lines 207 to 219)\<close>

text \<open>The call the script makes on the model, with the arguments it passes.\<close>

datatype call =
    Beam_search int "int setting" "tensor option" real
      \<comment> \<open>\<^verbatim>\<open>model.beam_search(init, max_len, beam_size, controls, temperature)\<close>\<close>
  | Generate int "tensor option" "real setting" real
      \<comment> \<open>\<^verbatim>\<open>model.generate(init, max_len, controls, greedy, temperature)\<close>\<close>

definition dispatch :: "options \<Rightarrow> settings \<Rightarrow> int \<Rightarrow> tensor option \<Rightarrow> call" where
  "dispatch opt st max_len controls =
     (if use_beam_search st
      then Beam_search max_len (beam_size st) controls (opt_temperature opt)
      else Generate max_len controls (greedy_ratio st) (opt_temperature opt))"

fun is_beam_search :: "call \<Rightarrow> bool" where
  "is_beam_search (Beam_search _ _ _ _) = True"
| "is_beam_search (Generate _ _ _ _) = False"

fun is_generate :: "call \<Rightarrow> bool" where
  "is_generate (Beam_search _ _ _ _) = False"
| "is_generate (Generate _ _ _ _) = True"

subsection \<open>Strings\<close>

text \<open>
  \<^verbatim>\<open>s.split(sep)\<close> with a one-character separator: the text is cut at every
  occurrence, empty parts are kept, and the empty text gives one empty part.
\<close>

fun str_split :: "char \<Rightarrow> string \<Rightarrow> string list" where
  "str_split sep [] = [[]]"
| "str_split sep (c # cs) =
     (if c = sep then [] # str_split sep cs
      else (case str_split sep cs of
              [] \<Rightarrow> [[c]]
            | p # ps \<Rightarrow> (c # p) # ps))"

subsection \<open>The inline control (lines 144 to 156)\<close>

text \<open>\<^verbatim>\<open>np.ones(12) / 12\<close>: each of the twelve ones is divided by 12.\<close>

definition uniform :: "'c world \<Rightarrow> float64 list" where
  "uniform w = map (\<lambda>x. np_divide w x (Finite 12)) (replicate 12 (Finite 1))"

text \<open>Line 145: the items between commas, the empty ones dropped by \<^verbatim>\<open>filter(len, ...)\<close>.\<close>

definition histogram_items :: "string \<Rightarrow> string list" where
  "histogram_items h = filter (\<lambda>s. length s \<noteq> 0) (str_split CHR '','' h)"

text \<open>
  Lines 146 to 153. The sum and the quotients are numpy's: the sum of finite numbers
  can be infinite, and a quotient need not be the exact one.
\<close>

definition parse_pitch_histogram :: "'c world \<Rightarrow> string \<Rightarrow> error + float64 list" where
  "parse_pitch_histogram w h =
     (let items = histogram_items h in
      if length items = 0 then Inr (uniform w)
      else (case those (map (py_float w) items) of
              None \<Rightarrow> Inl Float_failed
            | Some xs \<Rightarrow>
                if length xs \<noteq> 12 then Inl Histogram_size
                else if \<not> list_all ge0 xs then Inl Histogram_negative
                else if truthy (np_sum w xs)
                  then Inr (map (\<lambda>x. np_divide w x (np_sum w xs)) xs)
                  else Inr (uniform w)))"

text \<open>Lines 154 and 155.\<close>

definition parse_note_density :: "'c world \<Rightarrow> string \<Rightarrow> error + int" where
  "parse_note_density w d =
     (case py_int w d of
        None \<Rightarrow> Inl Int_failed
      | Some n \<Rightarrow>
          if 0 \<le> n \<and> n < int (note_density_bins w) then Inr n
          else Inl Density_out_of_range)"

text \<open>Lines 144 to 156: the unpacking of line 144 needs exactly two parts.\<close>

definition inline_control :: "'c world \<Rightarrow> string \<Rightarrow> error + control" where
  "inline_control w s =
     (case str_split CHR '';'' s of
        [h, d] \<Rightarrow>
          (case parse_pitch_histogram w h of
             Inl e \<Rightarrow> Inl e
           | Inr ph \<Rightarrow>
               (case parse_note_density w d of
                  Inl e \<Rightarrow> Inl e
                | Inr n \<Rightarrow> Inr \<lparr>pitch_histogram = ph, note_density = n\<rparr>))
      | _ \<Rightarrow> Inl Unpack_failed)"

subsection \<open>Resolution of the control argument (lines 129 to 165)\<close>

text \<open>
  The variables the resolution leaves behind. The script ends with a text in
  \<^verbatim>\<open>control\<close>, for the log; \<open>control_text\<close> keeps what the text is made of.
\<close>

datatype control_text =
    Control_sequence_from string   \<comment> \<open>line 141\<close>
  | Repr control                   \<comment> \<open>line 159\<close>
  | NONE                           \<comment> \<open>line 163\<close>

record resolved =
  max_len :: int
  controls :: "tensor option"
  control :: control_text

text \<open>
  \<^verbatim>\<open>t.repeat(1, batch_size, 1)\<close> on a tensor whose batch dimension is 1: every step
  holds \<open>batch_size\<close> copies of its vector. A negative count is refused by the tensor
  library.
\<close>

definition repeat_batch :: "int \<Rightarrow> array \<Rightarrow> error + tensor" where
  "repeat_batch n a =
     (if n < 0 then Inl Negative_dimension
      else Inr (map (\<lambda>v. replicate (nat n) v) a))"

text \<open>Lines 131 to 134: the file the controls are read from.\<close>

definition control_file :: "'c world \<Rightarrow> string \<Rightarrow> error + string" where
  "control_file w c =
     (if isdir w c then
        (let files = find_files_by_extensions w c in
         if 0 < length files then Inr (files ! (random_draw w mod length files))
         else Inl No_file_in_directory)
      else Inr c)"

text \<open>Lines 135 to 141.\<close>

definition load_controls :: "'c world \<Rightarrow> options \<Rightarrow> string \<Rightarrow> error + resolved" where
  "load_controls w opt path =
     (case torch_load w path of
        None \<Rightarrow> Inl Load_failed
      | Some compressed_controls \<Rightarrow>
          (case recover_compressed_array w compressed_controls of
             None \<Rightarrow> Inl Recover_failed
           | Some a \<Rightarrow>
               (case repeat_batch (opt_batch_size opt) a of
                  Inl e \<Rightarrow> Inl e
                | Inr t \<Rightarrow>
                    Inr \<lparr>max_len = (if opt_max_len opt = 0 then int (length a)
                                     else opt_max_len opt),
                         controls = Some t,
                         control = Control_sequence_from path\<rparr>)))"

text \<open>Lines 129 to 163.\<close>

definition resolve_control :: "'c world \<Rightarrow> options \<Rightarrow> error + resolved" where
  "resolve_control w opt =
     (case opt_control opt of
        None \<Rightarrow> Inr \<lparr>max_len = opt_max_len opt, controls = None, control = NONE\<rparr>
      | Some c \<Rightarrow>
          if isfile w c \<or> isdir w c then
            (case control_file w c of
               Inl e \<Rightarrow> Inl e
             | Inr path \<Rightarrow> load_controls w opt path)
          else
            (case inline_control w c of
               Inl e \<Rightarrow> Inl e
             | Inr ctl \<Rightarrow>
                 (case repeat_batch (opt_batch_size opt) [to_array w ctl] of
                    Inl e \<Rightarrow> Inl e
                  | Inr t \<Rightarrow>
                      Inr \<lparr>max_len = opt_max_len opt, controls = Some t,
                           control = Repr ctl\<rparr>)))"

text \<open>Line 165.\<close>

definition check_max_len :: "resolved \<Rightarrow> error + resolved" where
  "check_max_len r = (if 0 < max_len r then Inr r else Inl No_length)"

text \<open>Lines 129 to 165: the resolution with the check of the length.\<close>

definition resolve :: "'c world \<Rightarrow> options \<Rightarrow> error + resolved" where
  "resolve w opt =
     (case resolve_control w opt of
        Inl e \<Rightarrow> Inl e
      | Inr r \<Rightarrow> check_max_len r)"

text \<open>
  Lines 111 to 219, without the loading of the model: the settings, the check of the
  session file, the resolution, and the call on the model.
\<close>

definition run :: "'c world \<Rightarrow> options \<Rightarrow> error + call" where
  "run w opt =
     (let st = sampling_settings opt in
      if \<not> isfile w (opt_sess_path opt) then Inl Session_not_a_file
      else (case resolve w opt of
              Inl e \<Rightarrow> Inl e
            | Inr r \<Rightarrow> Inr (dispatch opt st (max_len r) (controls r))))"

subsection \<open>A concrete world\<close>

text \<open>
  A world to run the definitions in. Its numbers are the IEEE 754 double-precision
  ones: \<open>round64\<close> rounds a real to the nearest of them, ties to the even one, with
  gradual underflow, and to an infinity from \<open>2^1024 - 2^970\<close> on.
\<close>

definition round_half_even :: "real \<Rightarrow> int" where
  "round_half_even y =
     (let f = \<lfloor>y\<rfloor>; d = y - of_int f in
      if d < 1 / 2 then f
      else if 1 / 2 < d then f + 1
      else if even f then f else f + 1)"

text \<open>
  The spacing of the doubles around \<open>y > 0\<close>: the power of two \<open>s = 2^e\<close> with
  \<open>2^52 * s \<le> y < 2^53 * s\<close>, and \<open>2^-1074\<close> when that would be smaller. It is searched
  from a given \<open>s\<close>, in steps of \<open>2^32\<close> and then of 2; \<open>k\<close> bounds the number of steps.
  The constants are \<open>2^85\<close>, \<open>2^53\<close>, \<open>2^52\<close> and \<open>2^32\<close>.
\<close>

function ulp_search :: "int \<Rightarrow> int \<Rightarrow> real \<Rightarrow> real \<Rightarrow> real" where
  "ulp_search k e s y =
     (if k \<le> 0 then s
      else if 38685626227668133590597632 * s \<le> y
        then ulp_search (k - 1) (e + 32) (4294967296 * s) y
      else if 9007199254740992 * s \<le> y then ulp_search (k - 1) (e + 1) (2 * s) y
      else if 4294967296 * y < 9007199254740992 * s \<and> - 1074 \<le> e - 32
        then ulp_search (k - 1) (e - 32) (s / 4294967296) y
      else if y < 4503599627370496 * s \<and> - 1074 < e
        then ulp_search (k - 1) (e - 1) (s / 2) y
      else s)"
  by pat_completeness auto
termination
  by (relation "measure (\<lambda>(k, e, s, y). nat k)") auto

definition round64 :: "real \<Rightarrow> float64" where
  "round64 r =
     (if r = 0 then Finite 0
      else if 2 ^ 1024 - 2 ^ 970 \<le> \<bar>r\<bar> then (if 0 < r then PInf else NInf)
      else (let s = ulp_search 200 0 1 \<bar>r\<bar>
            in Finite (of_int (round_half_even (r / s)) * s)))"

text \<open>The sum and the quotient of two doubles.\<close>

fun fl_add :: "float64 \<Rightarrow> float64 \<Rightarrow> float64" where
  "fl_add NaN _ = NaN"
| "fl_add _ NaN = NaN"
| "fl_add PInf NInf = NaN"
| "fl_add NInf PInf = NaN"
| "fl_add PInf _ = PInf"
| "fl_add _ PInf = PInf"
| "fl_add NInf _ = NInf"
| "fl_add _ NInf = NInf"
| "fl_add (Finite a) (Finite b) = round64 (a + b)"

fun fl_divide :: "float64 \<Rightarrow> float64 \<Rightarrow> float64" where
  "fl_divide NaN _ = NaN"
| "fl_divide _ NaN = NaN"
| "fl_divide (Finite a) (Finite b) =
     (if b = 0 then (if a = 0 then NaN else if 0 < a then PInf else NInf)
      else round64 (a / b))"
| "fl_divide (Finite a) _ = Finite 0"
| "fl_divide PInf (Finite b) = (if 0 \<le> b then PInf else NInf)"
| "fl_divide NInf (Finite b) = (if 0 \<le> b then NInf else PInf)"
| "fl_divide _ _ = NaN"

text \<open>The double nearest to \<open>10^308\<close>, \<^verbatim>\<open>0x1.1ccf385ebc8a0p+1023\<close>.\<close>

definition huge :: real where
  "huge = 5010420900022432 * 2 ^ 971"

text \<open>The double nearest to 1/3, \<^verbatim>\<open>0x1.5555555555555p-2\<close>.\<close>

definition third64 :: real where
  "third64 = 6004799503160661 / 2 ^ 54"

text \<open>The sum of an array, from left to right.\<close>

definition fl_sum :: "float64 list \<Rightarrow> float64" where
  "fl_sum xs = foldl fl_add (Finite 0) xs"

text \<open>
  Its \<^verbatim>\<open>float\<close> and \<^verbatim>\<open>int\<close> read plain decimal numerals with an optional minus
  sign, and \<^verbatim>\<open>float\<close> a decimal exponent after \<^verbatim>\<open>e\<close> as well; on these they agree
  with Python's.
\<close>

text \<open>The value of a decimal digit, from its character code.\<close>

definition digit_value :: "char \<Rightarrow> nat option" where
  "digit_value c =
     (let k = of_char c :: nat in
      if of_char CHR ''0'' \<le> k \<and> k \<le> of_char CHR ''9''
      then Some (k - of_char CHR ''0'')
      else None)"

fun digits_value :: "nat \<Rightarrow> string \<Rightarrow> nat option" where
  "digits_value acc [] = Some acc"
| "digits_value acc (c # cs) =
     (case digit_value c of
        None \<Rightarrow> None
      | Some v \<Rightarrow> digits_value (10 * acc + v) cs)"

definition decimal_nat :: "string \<Rightarrow> nat option" where
  "decimal_nat s = (if s = [] then None else digits_value 0 s)"

definition decimal_int :: "string \<Rightarrow> int option" where
  "decimal_int s =
     (case s of
        [] \<Rightarrow> None
      | c # cs \<Rightarrow>
          if c = CHR ''-'' then map_option (\<lambda>n. - int n) (decimal_nat cs)
          else map_option int (decimal_nat s))"

definition decimal_float :: "string \<Rightarrow> float64 option" where
  "decimal_float s =
     (case str_split CHR ''e'' s of
        [m] \<Rightarrow> map_option (\<lambda>i. round64 (of_int i)) (decimal_int m)
      | [m, x] \<Rightarrow>
          (case decimal_int m of
             None \<Rightarrow> None
           | Some i \<Rightarrow> map_option (\<lambda>n. round64 (of_int i * 10 ^ n)) (decimal_nat x))
      | _ \<Rightarrow> None)"

text \<open>
  The directory \<^verbatim>\<open>data\<close> holds two stored control arrays, of three steps and of two,
  and the draw takes the second; the directory \<^verbatim>\<open>broken\<close> holds one data file that
  \<^verbatim>\<open>torch.load\<close> cannot read; the directory \<^verbatim>\<open>empty\<close> holds nothing.
\<close>

definition example_world :: "array world" where
  "example_world =
     \<lparr>isfile = (\<lambda>p. p = ''save/train.sess'' \<or> p = ''data/a.data'' \<or> p = ''data/b.data''
                   \<or> p = ''broken/c.data''),
      isdir = (\<lambda>p. p = ''data'' \<or> p = ''broken'' \<or> p = ''empty''),
      find_files_by_extensions =
        (\<lambda>p. if p = ''data'' then [''data/a.data'', ''data/b.data'']
             else if p = ''broken'' then [''broken/c.data'']
             else []),
      random_draw = 5,
      torch_load =
        (\<lambda>p. if p = ''data/a.data''
               then Some [[Finite 1, Finite 0], [Finite 0, Finite 1], [Finite 1, Finite 1]]
             else if p = ''data/b.data''
               then Some [[Finite 0, Finite 1], [Finite 1, Finite 0]]
             else None),
      recover_compressed_array = Some,
      py_float = decimal_float,
      py_int = decimal_int,
      np_sum = fl_sum,
      np_divide = fl_divide,
      note_density_bins = 12,
      to_array = (\<lambda>c. Finite (of_int (note_density c)) # pitch_histogram c)\<rparr>"

definition example_options :: "string option \<Rightarrow> int \<Rightarrow> options" where
  "example_options c l =
     \<lparr>opt_control = c, opt_batch_size = 2, opt_sess_path = ''save/train.sess'',
      opt_max_len = l, opt_greedy_ratio = 1, opt_beam_size = 0, opt_temperature = 1\<rparr>"

declare ulp_search.simps [simp del]


section \<open>Auxiliary facts\<close>

lemma resolve_control_inline:
  assumes "opt_control opt = Some s" and "\<not> isfile w s" and "\<not> isdir w s"
      and "resolve_control w opt = Inr r"
  shows "\<exists>c. inline_control w s = Inr c \<and> control r = Repr c
           \<and> controls r = Some [replicate (nat (opt_batch_size opt)) (to_array w c)]
           \<and> max_len r = opt_max_len opt \<and> 0 \<le> opt_batch_size opt"
  using assms
  by (auto simp: resolve_control_def repeat_batch_def split: sum.splits if_splits)

lemma inline_control_parts:
  assumes "str_split CHR '';'' s = [h, d]" and "inline_control w s = Inr c"
  shows "parse_pitch_histogram w h = Inr (pitch_histogram c)
           \<and> parse_note_density w d = Inr (note_density c)"
  using assms by (auto simp: inline_control_def split: sum.splits)

lemma str_split_not_Nil: "str_split sep s \<noteq> []"
  by (induction s) (auto split: list.splits)

lemma str_split_append_sep:
  "str_split sep (a @ sep # b) = str_split sep a @ str_split sep b"
proof (induction a)
  case Nil
  show ?case by simp
next
  case (Cons c a)
  obtain p ps where "str_split sep a = p # ps"
    using str_split_not_Nil [of sep a] by (cases "str_split sep a") auto
  with Cons show ?case by simp
qed

lemma histogram_items_append_comma:
  "histogram_items (a @ CHR '','' # b) = histogram_items a @ histogram_items b"
  by (simp add: histogram_items_def str_split_append_sep)

lemma histogram_items_Nil: "histogram_items [] = []"
  by (simp add: histogram_items_def)

lemma parse_pitch_histogram_cong:
  "histogram_items h = histogram_items h' \<Longrightarrow>
     parse_pitch_histogram w h = parse_pitch_histogram w h'"
  by (simp add: parse_pitch_histogram_def)

lemma uniform_replicate: "uniform w = replicate 12 (np_divide w (Finite 1) (Finite 12))"
  by (simp add: uniform_def)

text \<open>The sum of quotients that are each close to the exact quotient.\<close>

lemma quotients_sum_bound:
  fixes t \<epsilon> \<eta> :: real
  assumes "list_all2 (\<lambda>q x. \<bar>q - x / t\<bar> \<le> \<epsilon> * (x / t) + \<eta>) qs rs"
  shows "\<bar>sum_list qs - sum_list rs / t\<bar> \<le> \<epsilon> * (sum_list rs / t) + real (length rs) * \<eta>"
  using assms
proof (induction rule: list_all2_induct)
  case Nil
  show ?case by simp
next
  case (Cons q qs x rs)
  have "\<bar>(q + sum_list qs) - (x + sum_list rs) / t\<bar>
          = \<bar>(q - x / t) + (sum_list qs - sum_list rs / t)\<bar>"
    by (simp add: add_divide_distrib)
  also have "\<dots> \<le> \<bar>q - x / t\<bar> + \<bar>sum_list qs - sum_list rs / t\<bar>"
    by (rule abs_triangle_ineq)
  also have "\<dots> \<le> (\<epsilon> * (x / t) + \<eta>) + (\<epsilon> * (sum_list rs / t) + real (length rs) * \<eta>)"
    using Cons by (intro add_mono) simp_all
  also have "\<dots> = \<epsilon> * ((x + sum_list rs) / t) + real (length (x # rs)) * \<eta>"
    by (simp add: add_divide_distrib algebra_simps)
  finally show ?case by simp
qed

text \<open>
  A divisor \<open>t\<close> within \<open>\<delta>\<close> of the exact sum \<open>T\<close>, and quotients that sum to \<open>Q\<close>
  close to \<open>T / t\<close>: then \<open>Q\<close> is close to 1.
\<close>

lemma normalised_within:
  fixes t T \<delta> \<epsilon> Q b :: real
  assumes T: "0 < T" and t: "\<bar>t - T\<bar> \<le> \<delta> * T" and \<delta>: "\<delta> < 1" and \<epsilon>: "0 \<le> \<epsilon>"
      and Q: "\<bar>Q - T / t\<bar> \<le> \<epsilon> * (T / t) + b"
  shows "0 < t" and "\<bar>Q - 1\<bar> \<le> (\<epsilon> + \<delta>) / (1 - \<delta>) + b"
proof -
  have \<delta>0: "0 \<le> \<delta>"
  proof (rule ccontr)
    assume "\<not> 0 \<le> \<delta>"
    then have "\<delta> * T < 0" using T by (simp add: mult_less_0_iff)
    with t show False by linarith
  qed
  have lower: "(1 - \<delta>) * T \<le> t" using t by (simp add: algebra_simps abs_le_iff)
  have "0 < (1 - \<delta>) * T" using \<delta> T by simp
  with lower show tpos: "0 < t" by linarith
  have ratio: "T / t \<le> 1 / (1 - \<delta>)"
  proof -
    have "T * (1 - \<delta>) \<le> t * 1" using lower by (simp add: algebra_simps)
    then show ?thesis using tpos \<delta> by (simp add: frac_le_eq field_simps)
  qed
  have "\<bar>T / t - 1\<bar> = \<bar>T - t\<bar> / t" using tpos by (simp add: field_simps abs_divide)
  also have "\<dots> \<le> \<delta> * T / t"
    using t tpos by (simp add: divide_right_mono abs_minus_commute)
  finally have one: "\<bar>T / t - 1\<bar> \<le> \<delta> * (T / t)" by simp
  have "\<bar>Q - 1\<bar> \<le> \<bar>Q - T / t\<bar> + \<bar>T / t - 1\<bar>" by linarith
  also have "\<dots> \<le> (\<epsilon> * (T / t) + b) + \<delta> * (T / t)" using Q one by linarith
  also have "\<dots> = (\<epsilon> + \<delta>) * (T / t) + b"
    by (simp add: distrib_right add_divide_distrib)
  also have "\<dots> \<le> (\<epsilon> + \<delta>) * (1 / (1 - \<delta>)) + b"
    using ratio \<epsilon> \<delta>0 by (intro add_mono mult_left_mono) simp_all
  finally show "\<bar>Q - 1\<bar> \<le> (\<epsilon> + \<delta>) / (1 - \<delta>) + b" by simp
qed

subsection \<open>The concrete world, evaluated\<close>

lemmas round64_eval = round64_def ulp_search.simps round_half_even_def

lemma round64_small:
  "round64 0 = Finite 0" "round64 1 = Finite 1" "round64 2 = Finite 2"
  "round64 3 = Finite 3" "round64 4 = Finite 4" "round64 5 = Finite 5"
  "round64 6 = Finite 6" "round64 7 = Finite 7" "round64 8 = Finite 8"
  by (simp_all add: round64_eval)

lemma round64_quotients:
  "round64 (1 / 4) = Finite (1 / 4)" "round64 (1 / 8) = Finite (1 / 8)"
  "round64 (1 / 12) = Finite (6004799503160661 / 2 ^ 56)"
  by (simp_all add: round64_eval)

lemma round64_third: "round64 (1 / 3) = Finite third64"
  by (simp add: round64_eval third64_def)

lemma round64_huge: "round64 (10 ^ 308) = Finite huge"
  by (simp add: round64_eval huge_def)

lemma round64_huge_id: "round64 huge = Finite huge"
  by (simp add: round64_eval huge_def)

lemma round64_overflow: "round64 (huge + huge) = PInf" "round64 (2 * huge) = PInf"
  by (simp_all add: round64_def huge_def)

lemma huge_pos: "0 < huge"
  by (simp add: huge_def)

lemma decimal_float_huge: "decimal_float ''1e308'' = Some (Finite huge)"
  using round64_huge
  by (simp add: decimal_float_def decimal_int_def decimal_nat_def digit_value_def)

lemma decimal_float_zero: "decimal_float ''0'' = Some (Finite 0)"
  by (simp add: decimal_float_def decimal_int_def decimal_nat_def digit_value_def
        round64_small)

text \<open>The definitions a concrete run unfolds.\<close>

lemmas example_defs =
  example_world_def example_options_def decimal_float_def decimal_int_def decimal_nat_def
  digit_value_def fl_sum_def round64_small round64_quotients

lemmas inline_defs =
  inline_control_def parse_pitch_histogram_def histogram_items_def parse_note_density_def
  uniform_def

lemmas resolve_defs =
  resolve_def check_max_len_def resolve_control_def control_file_def load_controls_def
  repeat_batch_def


section \<open>The claims\<close>

subsection \<open>Normalised histogram\<close>

text \<open>
  Claim C1, as amended. An inline control \<^verbatim>\<open>"<pitch_histogram>;<note_density>"\<close> whose
  histogram half lists 12 finite non-negative numbers \<open>rs\<close> with a positive sum
  resolves to a Control whose pitch histogram is each number divided by numpy's sum of
  the twelve, whenever that sum is not zero. When that sum is finite (no overflow) and
  numpy's arithmetic is accurate, the sum \<open>t\<close> to a relative error \<open>\<delta> < 1\<close> and each
  quotient to a relative error \<open>\<epsilon>\<close> and an absolute error \<open>\<eta>\<close>, the entries of the
  histogram are finite and sum to 1 within \<open>(\<epsilon> + \<delta>) / (1 - \<delta>) + 12 \<eta>\<close>. When the sum
  overflows to infinity, every entry is 0 and the histogram does not sum to 1.
\<close>

theorem inline_histogram_normalised:
  assumes "opt_control opt = Some s" and "\<not> isfile w s" and "\<not> isdir w s"
      and "str_split CHR '';'' s = [h, d]"
      and "those (map (py_float w) (histogram_items h)) = Some (map Finite rs)"
      and "length rs = 12" and "\<forall>x\<in>set rs. 0 \<le> x" and "0 < sum_list rs"
      and "resolve_control w opt = Inr r"
  shows "\<exists>c. control r = Repr c
           \<and> (truthy (np_sum w (map Finite rs)) \<longrightarrow>
                pitch_histogram c =
                  map (\<lambda>x. np_divide w (Finite x) (np_sum w (map Finite rs))) rs)
           \<and> (np_sum w (map Finite rs) = Finite t
                \<and> \<bar>t - sum_list rs\<bar> \<le> \<delta> * sum_list rs \<and> \<delta> < 1 \<and> 0 \<le> \<epsilon>
                \<and> (\<forall>x\<in>set rs. \<exists>q. np_divide w (Finite x) (Finite t) = Finite q
                                    \<and> \<bar>q - x / t\<bar> \<le> \<epsilon> * (x / t) + \<eta>) \<longrightarrow>
                (\<exists>qs. pitch_histogram c = map Finite qs
                      \<and> \<bar>sum_list qs - 1\<bar> \<le> (\<epsilon> + \<delta>) / (1 - \<delta>) + 12 * \<eta>))
           \<and> (np_sum w (map Finite rs) = PInf
                \<and> (\<forall>x\<in>set rs. np_divide w (Finite x) PInf = Finite 0) \<longrightarrow>
                pitch_histogram c = replicate 12 (Finite 0))"
proof -
  let ?S = "np_sum w (map Finite rs)"
  from resolve_control_inline [OF assms(1-3) assms(9)]
  obtain c where c: "inline_control w s = Inr c" "control r = Repr c" by blast
  from inline_control_parts [OF assms(4) c(1)]
  have ph: "parse_pitch_histogram w h = Inr (pitch_histogram c)" by simp
  have ne: "histogram_items h \<noteq> []"
    using assms(5,6) by auto
  have nonneg: "list_all ge0 (map Finite rs)"
    using assms(7) by (simp add: list_all_iff)
  have quot: "pitch_histogram c = map (\<lambda>x. np_divide w (Finite x) ?S) rs" if "truthy ?S"
  proof -
    have "parse_pitch_histogram w h = Inr (map (\<lambda>x. np_divide w x ?S) (map Finite rs))"
      using assms(5,6) ne nonneg that by (simp add: parse_pitch_histogram_def)
    with ph show ?thesis by (simp add: comp_def)
  qed
  have within: "\<exists>qs. pitch_histogram c = map Finite qs
                  \<and> \<bar>sum_list qs - 1\<bar> \<le> (\<epsilon> + \<delta>) / (1 - \<delta>) + 12 * \<eta>"
    if S: "?S = Finite t" and t: "\<bar>t - sum_list rs\<bar> \<le> \<delta> * sum_list rs"
      and \<delta>: "\<delta> < 1" and \<epsilon>: "0 \<le> \<epsilon>"
      and acc: "\<forall>x\<in>set rs. \<exists>q. np_divide w (Finite x) (Finite t) = Finite q
                              \<and> \<bar>q - x / t\<bar> \<le> \<epsilon> * (x / t) + \<eta>"
  proof -
    from bchoice [OF acc]
    obtain f where f: "\<forall>x\<in>set rs. np_divide w (Finite x) (Finite t) = Finite (f x)
                                  \<and> \<bar>f x - x / t\<bar> \<le> \<epsilon> * (x / t) + \<eta>"
      by blast
    have "list_all2 (\<lambda>q x. \<bar>q - x / t\<bar> \<le> \<epsilon> * (x / t) + \<eta>) (map f rs) rs"
      using f by (simp add: list_all2_conv_all_nth)
    from quotients_sum_bound [OF this]
    have Q: "\<bar>sum_list (map f rs) - sum_list rs / t\<bar>
               \<le> \<epsilon> * (sum_list rs / t) + 12 * \<eta>"
      using assms(6) by simp
    from normalised_within [OF assms(8) t \<delta> \<epsilon> Q]
    have tpos: "0 < t"
      and bound: "\<bar>sum_list (map f rs) - 1\<bar> \<le> (\<epsilon> + \<delta>) / (1 - \<delta>) + 12 * \<eta>"
      by simp_all
    have "truthy ?S" using S tpos by simp
    from quot [OF this] have "pitch_histogram c = map Finite (map f rs)"
      using f S by (simp add: comp_def)
    with bound show ?thesis by blast
  qed
  have zeros: "pitch_histogram c = replicate 12 (Finite 0)"
    if S: "?S = PInf" and z: "\<forall>x\<in>set rs. np_divide w (Finite x) PInf = Finite 0"
  proof -
    have "truthy ?S" using S by simp
    from quot [OF this] have "pitch_histogram c = map (\<lambda>x. Finite 0) rs"
      using z S by simp
    then show ?thesis using assms(6) by (simp add: map_replicate_const)
  qed
  from c(2) quot within zeros show ?thesis by blast
qed

text \<open>
  Two runs of the concrete world. On the help text's own example,
  \<^verbatim>\<open>2,0,1,1,0,1,0,1,1,0,0,1;4\<close>, the sum is 8, the sum and the quotients are exact, and
  the histogram sums to 1. On \<^verbatim>\<open>1,1,1,0,0,0,0,0,0,0,0,0;3\<close> the sum is 3 and the
  quotient 1/3 is rounded, with a relative error below \<open>2^-53\<close>: the histogram sums to
  \<open>1 - 2^-54\<close>, within \<open>2^-53\<close> of 1.
\<close>

theorem inline_histogram_normalised_witness:
  "resolve_control example_world (example_options (Some ''2,0,1,1,0,1,0,1,1,0,0,1;4'') 10) =
     Inr \<lparr>max_len = 10,
          controls = Some [replicate 2
            (map Finite [4, 1/4, 0, 1/8, 1/8, 0, 1/8, 0, 1/8, 1/8, 0, 0, 1/8])],
          control = Repr \<lparr>pitch_histogram =
                             map Finite [1/4, 0, 1/8, 1/8, 0, 1/8, 0, 1/8, 1/8, 0, 0, 1/8],
                           note_density = 4\<rparr>\<rparr>
   \<and> np_sum example_world (map Finite [2, 0, 1, 1, 0, 1, 0, 1, 1, 0, 0, 1]) = Finite 8
   \<and> (\<exists>qs. map Finite [1/4, 0, 1/8, 1/8, 0, 1/8, 0, 1/8, 1/8, 0, 0, 1/8] = map Finite qs
           \<and> \<bar>sum_list qs - 1\<bar> \<le> 0)
   \<and> resolve_control example_world (example_options (Some ''1,1,1,0,0,0,0,0,0,0,0,0;3'') 10) =
     Inr \<lparr>max_len = 10,
          controls = Some [replicate 2
            (map Finite [3, third64, third64, third64, 0, 0, 0, 0, 0, 0, 0, 0, 0])],
          control = Repr \<lparr>pitch_histogram =
                             map Finite [third64, third64, third64, 0, 0, 0, 0, 0, 0, 0, 0, 0],
                           note_density = 3\<rparr>\<rparr>
   \<and> sum_list [third64, third64, third64, 0, 0, 0, 0, 0, 0, 0, 0, 0] = 1 - 1 / 2 ^ 54
   \<and> (\<exists>qs. map Finite [third64, third64, third64, 0, 0, 0, 0, 0, 0, 0, 0, 0] = map Finite qs
           \<and> \<bar>sum_list qs - 1\<bar> \<le> 1 / 2 ^ 53)"
proof -
  let ?s = "''2,0,1,1,0,1,0,1,1,0,0,1;4''"
  let ?opt = "example_options (Some ?s) 10"
  let ?rs = "[2, 0, 1, 1, 0, 1, 0, 1, 1, 0, 0, 1] :: real list"
  let ?hist = "map Finite [1/4, 0, 1/8, 1/8, 0, 1/8, 0, 1/8, 1/8, 0, 0, 1/8]"
  let ?r = "\<lparr>max_len = 10,
          controls = Some [replicate 2
            (map Finite [4, 1/4, 0, 1/8, 1/8, 0, 1/8, 0, 1/8, 1/8, 0, 0, 1/8])],
          control = Repr \<lparr>pitch_histogram = ?hist, note_density = 4\<rparr>\<rparr>"
  have h1: "opt_control ?opt = Some ?s" by (simp add: example_options_def)
  have h2: "\<not> isfile example_world ?s" by (simp add: example_world_def)
  have h3: "\<not> isdir example_world ?s" by (simp add: example_world_def)
  have h4: "str_split CHR '';'' ?s = [''2,0,1,1,0,1,0,1,1,0,0,1'', ''4'']" by simp
  have h5: "those (map (py_float example_world) (histogram_items ''2,0,1,1,0,1,0,1,1,0,0,1''))
              = Some (map Finite ?rs)"
    by (simp add: histogram_items_def example_defs)
  have h6: "length ?rs = 12" by simp
  have h7: "\<forall>x\<in>set ?rs. 0 \<le> x" by simp
  have h8: "0 < sum_list ?rs" by simp
  have h9: "resolve_control example_world ?opt = Inr ?r"
    by (simp add: resolve_defs inline_defs example_defs)
  have S: "np_sum example_world (map Finite ?rs) = Finite 8"
    by (simp add: example_defs)
  let ?A = "np_sum example_world (map Finite ?rs) = Finite 8
       \<and> \<bar>8 - sum_list ?rs\<bar> \<le> 0 * sum_list ?rs \<and> (0::real) < 1 \<and> (0::real) \<le> 0
       \<and> (\<forall>x\<in>set ?rs. \<exists>q. np_divide example_world (Finite x) (Finite 8) = Finite q
                           \<and> \<bar>q - x / 8\<bar> \<le> 0 * (x / 8) + 0)"
  have acc: ?A
  proof (intro conjI ballI)
    have exact: "\<forall>x\<in>set ?rs. np_divide example_world (Finite x) (Finite 8) = Finite (x / 8)"
      by (simp add: example_defs)
    fix x assume "x \<in> set ?rs"
    with exact have "np_divide example_world (Finite x) (Finite 8) = Finite (x / 8)"
      by blast
    then show "\<exists>q. np_divide example_world (Finite x) (Finite 8) = Finite q
                 \<and> \<bar>q - x / 8\<bar> \<le> 0 * (x / 8) + 0"
      by (intro exI [of _ "x / 8"]) simp
  qed (insert S, simp_all)
  from inline_histogram_normalised [OF h1 h2 h3 h4 h5 h6 h7 h8 h9, of 8 0 0 0]
  obtain c where c: "control ?r = Repr c"
    and tol: "?A \<longrightarrow> (\<exists>qs. pitch_histogram c = map Finite qs
                      \<and> \<bar>sum_list qs - 1\<bar> \<le> (0 + 0) / (1 - 0) + 12 * 0)"
    by blast
  from tol acc obtain qs where qs: "pitch_histogram c = map Finite qs"
    "\<bar>sum_list qs - 1\<bar> \<le> (0 + 0) / (1 - 0) + 12 * 0"
    by blast
  from c qs(1) have "?hist = map Finite qs" by auto
  moreover from qs(2) have "\<bar>sum_list qs - 1\<bar> \<le> 0" by simp
  ultimately have exact_run: "\<exists>qs. ?hist = map Finite qs \<and> \<bar>sum_list qs - 1\<bar> \<le> 0" by blast

  let ?s' = "''1,1,1,0,0,0,0,0,0,0,0,0;3''"
  let ?opt' = "example_options (Some ?s') 10"
  let ?rs' = "[1, 1, 1, 0, 0, 0, 0, 0, 0, 0, 0, 0] :: real list"
  let ?qs' = "[third64, third64, third64, 0, 0, 0, 0, 0, 0, 0, 0, 0]"
  let ?r' = "\<lparr>max_len = 10,
          controls = Some [replicate 2
            (map Finite [3, third64, third64, third64, 0, 0, 0, 0, 0, 0, 0, 0, 0])],
          control = Repr \<lparr>pitch_histogram = map Finite ?qs', note_density = 3\<rparr>\<rparr>"
  have third: "np_divide example_world (Finite 1) (Finite 3) = Finite third64"
    "np_divide example_world (Finite 0) (Finite 3) = Finite 0"
    by (simp_all add: example_defs round64_third)
  have g1: "opt_control ?opt' = Some ?s'" by (simp add: example_options_def)
  have g2: "\<not> isfile example_world ?s'" by (simp add: example_world_def)
  have g3: "\<not> isdir example_world ?s'" by (simp add: example_world_def)
  have g4: "str_split CHR '';'' ?s' = [''1,1,1,0,0,0,0,0,0,0,0,0'', ''3'']" by simp
  have g5: "those (map (py_float example_world) (histogram_items ''1,1,1,0,0,0,0,0,0,0,0,0''))
              = Some (map Finite ?rs')"
    by (simp add: histogram_items_def example_defs)
  have g6: "length ?rs' = 12" by simp
  have g7: "\<forall>x\<in>set ?rs'. 0 \<le> x" by simp
  have g8: "0 < sum_list ?rs'" by simp
  have S': "np_sum example_world (map Finite ?rs') = Finite 3"
    by (simp add: example_defs)
  have g9: "resolve_control example_world ?opt' = Inr ?r'"
    by (simp add: resolve_defs inline_defs example_defs round64_third)
  let ?B = "np_sum example_world (map Finite ?rs') = Finite 3
       \<and> \<bar>3 - sum_list ?rs'\<bar> \<le> 0 * sum_list ?rs' \<and> (0::real) < 1 \<and> (0::real) \<le> 1 / 2 ^ 53
       \<and> (\<forall>x\<in>set ?rs'. \<exists>q. np_divide example_world (Finite x) (Finite 3) = Finite q
                            \<and> \<bar>q - x / 3\<bar> \<le> 1 / 2 ^ 53 * (x / 3) + 0)"
  have acc': ?B
  proof (intro conjI ballI)
    fix x assume "x \<in> set ?rs'"
    then have "x = 1 \<or> x = 0" by auto
    then show "\<exists>q. np_divide example_world (Finite x) (Finite 3) = Finite q
                 \<and> \<bar>q - x / 3\<bar> \<le> 1 / 2 ^ 53 * (x / 3) + 0"
    proof
      assume "x = 1"
      with third(1) show ?thesis
        by (intro exI [of _ third64]) (simp add: third64_def)
    next
      assume "x = 0"
      with third(2) show ?thesis
        by (intro exI [of _ 0]) simp
    qed
  qed (insert S', simp_all)
  from inline_histogram_normalised [OF g1 g2 g3 g4 g5 g6 g7 g8 g9, of 3 0 "1 / 2 ^ 53" 0]
  obtain c' where c': "control ?r' = Repr c'"
    and tol': "?B \<longrightarrow> (\<exists>qs. pitch_histogram c' = map Finite qs
                      \<and> \<bar>sum_list qs - 1\<bar> \<le> (1 / 2 ^ 53 + 0) / (1 - 0) + 12 * 0)"
    by blast
  from tol' acc' obtain qs' where qs': "pitch_histogram c' = map Finite qs'"
    "\<bar>sum_list qs' - 1\<bar> \<le> (1 / 2 ^ 53 + 0) / (1 - 0) + 12 * 0"
    by blast
  from c' qs'(1) have "map Finite ?qs' = map Finite qs'" by auto
  moreover from qs'(2) have "\<bar>sum_list qs' - 1\<bar> \<le> 1 / 2 ^ 53" by simp
  ultimately have rounded_run:
    "\<exists>qs. map Finite ?qs' = map Finite qs \<and> \<bar>sum_list qs - 1\<bar> \<le> 1 / 2 ^ 53"
    by blast
  have total: "sum_list ?qs' = 1 - 1 / 2 ^ 54" by (simp add: third64_def)
  from h9 S exact_run g9 total rounded_run show ?thesis by blast
qed

text \<open>
  The claim as it was stated, that the histogram is the values divided by their sum and
  sums to 1, fails on \<^verbatim>\<open>1e308,1e308,0,0,0,0,0,0,0,0,0,0;3\<close>. The twelve numbers are
  finite and not negative and their sum is positive, but numpy's sum of them is
  infinite: every entry of the resolved histogram is 0, where the first value divided
  by the sum is 1/2, and the entries sum to 0.
\<close>

theorem histogram_overflow_counterexample:
  "those (map (py_float example_world) (histogram_items ''1e308,1e308,0,0,0,0,0,0,0,0,0,0''))
     = Some (map Finite [huge, huge, 0, 0, 0, 0, 0, 0, 0, 0, 0, 0])
   \<and> list_all (\<lambda>x. 0 \<le> x) [huge, huge, 0, 0, 0, 0, 0, 0, 0, 0, 0, 0]
   \<and> 0 < sum_list [huge, huge, 0, 0, 0, 0, 0, 0, 0, 0, 0, 0]
   \<and> huge / sum_list [huge, huge, 0, 0, 0, 0, 0, 0, 0, 0, 0, 0] = 1 / 2
   \<and> np_sum example_world (map Finite [huge, huge, 0, 0, 0, 0, 0, 0, 0, 0, 0, 0]) = PInf
   \<and> resolve_control example_world
        (example_options (Some ''1e308,1e308,0,0,0,0,0,0,0,0,0,0;3'') 10) =
       Inr \<lparr>max_len = 10,
            controls = Some [replicate 2 (Finite 3 # replicate 12 (Finite 0))],
            control = Repr \<lparr>pitch_histogram = replicate 12 (Finite 0), note_density = 3\<rparr>\<rparr>
   \<and> sum_list (replicate 12 (0::real)) = 0"
proof -
  let ?h = "''1e308,1e308,0,0,0,0,0,0,0,0,0,0''"
  let ?rs = "[huge, huge, 0, 0, 0, 0, 0, 0, 0, 0, 0, 0]"
  have items: "histogram_items ?h =
      [''1e308'', ''1e308'', ''0'', ''0'', ''0'', ''0'', ''0'', ''0'', ''0'', ''0'', ''0'', ''0'']"
    by (simp add: histogram_items_def)
  have parsed: "those (map (py_float example_world) (histogram_items ?h)) = Some (map Finite ?rs)"
    unfolding items by (simp add: example_world_def decimal_float_huge decimal_float_zero)
  have nonneg: "list_all (\<lambda>x. 0 \<le> x) ?rs" using huge_pos by simp
  have pos: "0 < sum_list ?rs" using huge_pos by simp
  have half: "huge / sum_list ?rs = 1 / 2" using huge_pos by simp
  have sum: "np_sum example_world (map Finite ?rs) = PInf"
    by (simp add: example_world_def fl_sum_def round64_huge_id round64_overflow)
  have hist: "parse_pitch_histogram example_world ?h = Inr (replicate 12 (Finite 0))"
    using parsed sum nonneg
    by (simp add: parse_pitch_histogram_def items example_world_def eval_nat_numeral)
  have density: "parse_note_density example_world ''3'' = Inr 3"
    by (simp add: parse_note_density_def example_defs)
  have split: "str_split CHR '';'' ''1e308,1e308,0,0,0,0,0,0,0,0,0,0;3'' = [?h, ''3'']"
    by simp
  have inline: "inline_control example_world ''1e308,1e308,0,0,0,0,0,0,0,0,0,0;3'' =
                  Inr \<lparr>pitch_histogram = replicate 12 (Finite 0), note_density = 3\<rparr>"
    by (simp add: inline_control_def split hist density)
  have path: "\<not> isfile example_world ''1e308,1e308,0,0,0,0,0,0,0,0,0,0;3''"
    "\<not> isdir example_world ''1e308,1e308,0,0,0,0,0,0,0,0,0,0;3''"
    by (simp_all add: example_world_def)
  have res: "resolve_control example_world
        (example_options (Some ''1e308,1e308,0,0,0,0,0,0,0,0,0,0;3'') 10) =
       Inr \<lparr>max_len = 10,
            controls = Some [replicate 2 (Finite 3 # replicate 12 (Finite 0))],
            control = Repr \<lparr>pitch_histogram = replicate 12 (Finite 0), note_density = 3\<rparr>\<rparr>"
    using path
    by (simp add: resolve_control_def repeat_batch_def inline example_options_def)
       (simp add: example_world_def)
  have zero: "sum_list (replicate 12 (0::real)) = 0" by (simp add: sum_list_replicate)
  from parsed nonneg pos half sum res zero show ?thesis by blast
qed

subsection \<open>A directory as control argument\<close>

text \<open>
  Claim C2, as amended. For a control argument that names a directory: when no file is
  found in it, the resolution fails by the assertion of line 133. Otherwise exactly one
  of the files found is selected, uniformly at random: the file at the position that
  \<^verbatim>\<open>np.random.choice\<close> draws, where the draws \<open>0, ..., n - 1\<close> over \<open>n\<close> files select
  the positions \<open>0, ..., n - 1\<close> in turn, so that each file of a duplicate-free listing
  is selected by exactly one of the \<open>n\<close> equally likely draws. The resolution goes on
  as for the selected file: it succeeds exactly when that file loads and decompresses,
  the batch size is not negative and the final length is positive. A directory that
  holds a file is necessary for success, not sufficient.
\<close>

theorem directory_resolution:
  assumes "opt_control opt = Some c" and "isdir w c"
  shows "(find_files_by_extensions w c = [] \<longrightarrow>
            resolve_control w opt = Inl No_file_in_directory
            \<and> resolve w opt = Inl No_file_in_directory)
         \<and> (find_files_by_extensions w c \<noteq> [] \<longrightarrow>
              control_file w c =
                Inr (find_files_by_extensions w c !
                       (random_draw w mod length (find_files_by_extensions w c)))
              \<and> (\<exists>p. p \<in> set (find_files_by_extensions w c) \<and> control_file w c = Inr p
                   \<and> resolve_control w opt = load_controls w opt p))
         \<and> (\<forall>k<length (find_files_by_extensions w c).
               control_file (w\<lparr>random_draw := k\<rparr>) c = Inr (find_files_by_extensions w c ! k))
         \<and> (distinct (find_files_by_extensions w c) \<longrightarrow>
              (\<forall>f\<in>set (find_files_by_extensions w c).
                 card {k. k < length (find_files_by_extensions w c)
                          \<and> control_file (w\<lparr>random_draw := k\<rparr>) c = Inr f} = 1))
         \<and> ((\<exists>r. resolve w opt = Inr r) =
              (\<exists>p cc a. control_file w c = Inr p \<and> torch_load w p = Some cc
                 \<and> recover_compressed_array w cc = Some a \<and> 0 \<le> opt_batch_size opt
                 \<and> 0 < (if opt_max_len opt = 0 then int (length a) else opt_max_len opt)))"
proof (intro conjI impI)
  let ?fs = "find_files_by_extensions w c"
  let ?p = "?fs ! (random_draw w mod length ?fs)"
  have rc: "resolve_control w opt =
              (case control_file w c of Inl e \<Rightarrow> Inl e | Inr p \<Rightarrow> load_controls w opt p)"
    using assms by (simp add: resolve_control_def)
  have draw: "control_file (w\<lparr>random_draw := k\<rparr>) c = Inr (?fs ! k)" if "k < length ?fs" for k
    using that assms(2) by (auto simp: control_file_def Let_def)
  {
    assume "?fs = []"
    then have "control_file w c = Inl No_file_in_directory"
      using assms(2) by (simp add: control_file_def)
    with rc show "resolve_control w opt = Inl No_file_in_directory"
      and "resolve w opt = Inl No_file_in_directory"
      by (simp_all add: resolve_def)
  }
  {
    assume ne: "?fs \<noteq> []"
    have mem: "?p \<in> set ?fs" using ne by simp
    show sel: "control_file w c = Inr ?p"
      using ne assms(2) by (simp add: control_file_def Let_def)
    from mem sel rc
    show "\<exists>p. p \<in> set ?fs \<and> control_file w c = Inr p
            \<and> resolve_control w opt = load_controls w opt p"
      by auto
  }
  show "\<forall>k<length ?fs. control_file (w\<lparr>random_draw := k\<rparr>) c = Inr (?fs ! k)"
    using draw by blast
  {
    assume d: "distinct ?fs"
    show "\<forall>f\<in>set ?fs. card {k. k < length ?fs
                               \<and> control_file (w\<lparr>random_draw := k\<rparr>) c = Inr f} = 1"
    proof
      fix f assume "f \<in> set ?fs"
      then obtain i where i: "i < length ?fs" "?fs ! i = f"
        by (auto simp: in_set_conv_nth)
      have "{k. k < length ?fs \<and> control_file (w\<lparr>random_draw := k\<rparr>) c = Inr f} = {i}"
        using i d draw by (auto simp: nth_eq_iff_index_eq)
      then show "card {k. k < length ?fs
                          \<and> control_file (w\<lparr>random_draw := k\<rparr>) c = Inr f} = 1"
        by simp
    qed
  }
  show "(\<exists>r. resolve w opt = Inr r) =
          (\<exists>p cc a. control_file w c = Inr p \<and> torch_load w p = Some cc
             \<and> recover_compressed_array w cc = Some a \<and> 0 \<le> opt_batch_size opt
             \<and> 0 < (if opt_max_len opt = 0 then int (length a) else opt_max_len opt))"
    unfolding resolve_def rc
    by (auto simp: load_controls_def repeat_batch_def check_max_len_def
             split: option.splits sum.splits if_splits)
qed

text \<open>
  The directory \<^verbatim>\<open>data\<close> holds two files. The draw of the concrete world selects the
  second, draw 0 the first and draw 1 the second; the directory \<^verbatim>\<open>empty\<close> fails.
\<close>

theorem directory_resolution_witness:
  "resolve example_world (example_options (Some ''data'') 0) =
     Inr \<lparr>max_len = 2,
          controls = Some [[[Finite 0, Finite 1], [Finite 0, Finite 1]],
                           [[Finite 1, Finite 0], [Finite 1, Finite 0]]],
          control = Control_sequence_from ''data/b.data''\<rparr>
   \<and> control_file example_world ''data'' = Inr ''data/b.data''
   \<and> control_file (example_world\<lparr>random_draw := 0\<rparr>) ''data'' = Inr ''data/a.data''
   \<and> control_file (example_world\<lparr>random_draw := 1\<rparr>) ''data'' = Inr ''data/b.data''
   \<and> card {k. k < 2 \<and> control_file (example_world\<lparr>random_draw := k\<rparr>) ''data''
                          = Inr ''data/a.data''} = 1
   \<and> resolve example_world (example_options (Some ''empty'') 5) = Inl No_file_in_directory"
proof -
  let ?opt = "example_options (Some ''data'') 0"
  have files: "find_files_by_extensions example_world ''data'' = [''data/a.data'', ''data/b.data'']"
    by (simp add: example_world_def)
  have d1: "opt_control ?opt = Some ''data''"
    by (simp add: example_options_def)
  have d2: "isdir example_world ''data''" by (simp add: example_world_def)
  have draw: "random_draw example_world = 5" by (simp add: example_world_def)
  have index: "(5::nat) mod Suc (Suc 0) = 1"
    by (simp add: numeral_2_eq_2 [symmetric])
  note dr = directory_resolution [OF d1 d2, unfolded files]
  from dr have sel: "control_file example_world ''data'' = Inr ''data/b.data''"
    by (simp add: draw index)
  from dr sel
  have "resolve_control example_world ?opt = load_controls example_world ?opt ''data/b.data''"
    by auto
  then have data: "resolve example_world ?opt =
     Inr \<lparr>max_len = 2,
          controls = Some [[[Finite 0, Finite 1], [Finite 0, Finite 1]],
                           [[Finite 1, Finite 0], [Finite 1, Finite 0]]],
          control = Control_sequence_from ''data/b.data''\<rparr>"
    by (simp add: resolve_def check_max_len_def load_controls_def repeat_batch_def
          example_defs numeral_2_eq_2)
  from dr have each: "\<forall>k<2. control_file (example_world\<lparr>random_draw := k\<rparr>) ''data''
                          = Inr ([''data/a.data'', ''data/b.data''] ! k)"
    by simp
  from each have k0: "control_file (example_world\<lparr>random_draw := 0\<rparr>) ''data''
                        = Inr ''data/a.data''"
    by force
  from each have k1: "control_file (example_world\<lparr>random_draw := 1\<rparr>) ''data''
                        = Inr ''data/b.data''"
    by force
  from dr have once: "card {k. k < 2 \<and> control_file (example_world\<lparr>random_draw := k\<rparr>) ''data''
                          = Inr ''data/a.data''} = 1"
    by (simp add: numeral_2_eq_2)
  have e1: "opt_control (example_options (Some ''empty'') 5) = Some ''empty''"
    by (simp add: example_options_def)
  have e2: "isdir example_world ''empty''" by (simp add: example_world_def)
  have e3: "find_files_by_extensions example_world ''empty'' = []"
    by (simp add: example_world_def)
  from directory_resolution [OF e1 e2] e3
  have "resolve example_world (example_options (Some ''empty'') 5) = Inl No_file_in_directory"
    by blast
  with data sel k0 k1 once show ?thesis by blast
qed

text \<open>
  The claim as it was stated, success if and only if the directory is not empty, fails
  on two runs of the concrete world. The directory \<^verbatim>\<open>broken\<close> holds a file, which is
  selected, and line 135 cannot load it. The directory \<^verbatim>\<open>data\<close> holds files that
  load, and with \<^verbatim>\<open>-l -1\<close> the run stops at line 165.
\<close>

theorem directory_not_empty_counterexample:
  "isdir example_world ''broken''
   \<and> find_files_by_extensions example_world ''broken'' = [''broken/c.data'']
   \<and> resolve_control example_world (example_options (Some ''broken'') 10) = Inl Load_failed
   \<and> resolve example_world (example_options (Some ''broken'') 10) = Inl Load_failed
   \<and> isdir example_world ''data''
   \<and> find_files_by_extensions example_world ''data'' = [''data/a.data'', ''data/b.data'']
   \<and> resolve example_world (example_options (Some ''data'') (- 1)) = Inl No_length"
proof -
  have index: "(5::nat) mod Suc (Suc 0) = 1"
    by (simp add: numeral_2_eq_2 [symmetric])
  show ?thesis
    by (simp add: resolve_defs example_defs index)
qed

subsection \<open>No length\<close>

text \<open>
  Claim C3. With no control argument and no max length (the default 0) the run fails,
  at line 165. More generally the run fails whenever the max length is 0 and the
  control argument is not the path of a file or directory, so that nothing supplies a
  length. A resolution that succeeds leaves a positive length, and leaves no controls
  exactly when the control argument is absent: otherwise it leaves a tensor, whose
  outer length is its step count.
\<close>

theorem no_length_fails:
  "(opt_control opt = None \<and> opt_max_len opt = 0 \<longrightarrow>
      resolve w opt = Inl No_length \<and> (\<exists>e. run w opt = Inl e))
   \<and> (opt_max_len opt = 0 \<and> (\<forall>c. opt_control opt = Some c \<longrightarrow> \<not> isfile w c \<and> \<not> isdir w c) \<longrightarrow>
        (\<exists>e. resolve w opt = Inl e) \<and> (\<exists>e. run w opt = Inl e))
   \<and> (\<forall>r. resolve w opt = Inr r \<longrightarrow>
        0 < max_len r \<and> (controls r = None) = (opt_control opt = None))"
proof -
  have none: "resolve w opt = Inl No_length"
    if "opt_control opt = None" and "opt_max_len opt = 0"
    using that by (simp add: resolve_def resolve_control_def check_max_len_def)
  have nolen: "\<exists>e. resolve w opt = Inl e"
    if "opt_max_len opt = 0"
      and "\<forall>c. opt_control opt = Some c \<longrightarrow> \<not> isfile w c \<and> \<not> isdir w c"
    using that
    by (auto simp: resolve_def resolve_control_def check_max_len_def
             split: option.splits sum.splits)
  have run_fails: "\<exists>e. run w opt = Inl e" if "\<exists>e. resolve w opt = Inl e"
    using that by (auto simp: run_def Let_def)
  have shape: "0 < max_len r \<and> (controls r = None) = (opt_control opt = None)"
    if "resolve w opt = Inr r" for r
    using that
    by (auto simp: resolve_def check_max_len_def resolve_control_def load_controls_def
             split: option.splits sum.splits if_splits)
  from none nolen run_fails shape show ?thesis by blast
qed

theorem no_length_fails_witness:
  "resolve example_world (example_options None 0) = Inl No_length
   \<and> run example_world (example_options None 0) = Inl No_length
   \<and> run example_world (example_options (Some '';3'') 0) = Inl No_length"
proof -
  have a: "opt_control (example_options None 0) = None \<and> opt_max_len (example_options None 0) = 0"
    by (simp add: example_options_def)
  from no_length_fails [of "example_options None 0" example_world] a
  have r1: "resolve example_world (example_options None 0) = Inl No_length" by blast
  have b: "opt_max_len (example_options (Some '';3'') 0) = 0
           \<and> (\<forall>c. opt_control (example_options (Some '';3'') 0) = Some c \<longrightarrow>
                  \<not> isfile example_world c \<and> \<not> isdir example_world c)"
    by (simp add: example_defs)
  from no_length_fails [of "example_options (Some '';3'') 0" example_world] b
  have "\<exists>e. run example_world (example_options (Some '';3'') 0) = Inl e" by blast
  then have r3: "run example_world (example_options (Some '';3'') 0) = Inl No_length"
    by (simp add: run_def resolve_defs inline_defs example_defs)
  from r1 have r2: "run example_world (example_options None 0) = Inl No_length"
    by (simp add: run_def example_defs)
  from r1 r2 r3 show ?thesis by simp
qed

subsection \<open>Uniform fallback\<close>

text \<open>
  Claim C4. An inline control whose histogram half has no item, or whose 12 histogram
  values sum to zero, resolves to a Control whose pitch histogram is the uniform one:
  12 entries, each 1 divided by 12.
\<close>

theorem inline_histogram_uniform_fallback:
  assumes "opt_control opt = Some s" and "\<not> isfile w s" and "\<not> isdir w s"
      and "str_split CHR '';'' s = [h, d]"
      and "histogram_items h = []
           \<or> (those (map (py_float w) (histogram_items h)) = Some xs
                \<and> length xs = 12 \<and> np_sum w xs = Finite 0)"
      and "resolve_control w opt = Inr r"
  shows "\<exists>c. control r = Repr c
           \<and> pitch_histogram c = replicate 12 (np_divide w (Finite 1) (Finite 12))"
proof -
  from resolve_control_inline [OF assms(1-3) assms(6)]
  obtain c where c: "inline_control w s = Inr c" "control r = Repr c" by blast
  from inline_control_parts [OF assms(4) c(1)]
  have ph: "parse_pitch_histogram w h = Inr (pitch_histogram c)" by simp
  from assms(5) have "pitch_histogram c = uniform w"
  proof
    assume "histogram_items h = []"
    with ph show ?thesis by (simp add: parse_pitch_histogram_def)
  next
    assume "those (map (py_float w) (histogram_items h)) = Some xs
              \<and> length xs = 12 \<and> np_sum w xs = Finite 0"
    with ph show ?thesis
      by (auto simp: parse_pitch_histogram_def Let_def split: if_splits)
  qed
  with c(2) show ?thesis by (simp add: uniform_replicate)
qed

text \<open>In the concrete world 1 divided by 12 is the double \<^verbatim>\<open>0x1.5555555555555p-4\<close>.\<close>

theorem inline_histogram_uniform_fallback_witness:
  "resolve_control example_world (example_options (Some '';3'') 10) =
     Inr \<lparr>max_len = 10,
          controls = Some [replicate 2
            (Finite 3 # replicate 12 (Finite (6004799503160661 / 2 ^ 56)))],
          control = Repr \<lparr>pitch_histogram = replicate 12 (Finite (6004799503160661 / 2 ^ 56)),
                           note_density = 3\<rparr>\<rparr>
   \<and> resolve_control example_world (example_options (Some ''0,0,0,0,0,0,0,0,0,0,0,0;3'') 10) =
     Inr \<lparr>max_len = 10,
          controls = Some [replicate 2
            (Finite 3 # replicate 12 (Finite (6004799503160661 / 2 ^ 56)))],
          control = Repr \<lparr>pitch_histogram = replicate 12 (Finite (6004799503160661 / 2 ^ 56)),
                           note_density = 3\<rparr>\<rparr>"
proof -
  let ?r = "\<lparr>max_len = 10,
          controls = Some [replicate 2
            (Finite 3 # replicate 12 (Finite (6004799503160661 / 2 ^ 56)))],
          control = Repr \<lparr>pitch_histogram = replicate 12 (Finite (6004799503160661 / 2 ^ 56)),
                           note_density = 3\<rparr>\<rparr>"
  have twelfth: "np_divide example_world (Finite 1) (Finite 12)
                   = Finite (6004799503160661 / 2 ^ 56)"
    by (simp add: example_defs)
  let ?s = "'';3''"
  let ?opt = "example_options (Some ?s) 10"
  have h1: "opt_control ?opt = Some ?s" by (simp add: example_options_def)
  have h2: "\<not> isfile example_world ?s" by (simp add: example_world_def)
  have h3: "\<not> isdir example_world ?s" by (simp add: example_world_def)
  have h4: "str_split CHR '';'' ?s = ['''', ''3'']" by simp
  have h5: "histogram_items '''' = []
            \<or> (those (map (py_float example_world) (histogram_items '''')) = Some []
                 \<and> length ([] :: float64 list) = 12 \<and> np_sum example_world [] = Finite 0)"
    by (simp add: histogram_items_def)
  have "\<exists>r. resolve_control example_world ?opt = Inr r"
    by (simp add: resolve_defs inline_defs example_defs)
  then obtain r where r: "resolve_control example_world ?opt = Inr r" ..
  from inline_histogram_uniform_fallback [OF h1 h2 h3 h4 h5 r] twelfth
  obtain c where c: "control r = Repr c"
    "pitch_histogram c = replicate 12 (Finite (6004799503160661 / 2 ^ 56))"
    by auto
  from r c have first: "resolve_control example_world ?opt = Inr ?r"
    by (simp add: resolve_defs inline_defs example_defs)
  let ?z = "''0,0,0,0,0,0,0,0,0,0,0,0;3''"
  let ?optz = "example_options (Some ?z) 10"
  let ?zs = "replicate 12 (Finite 0)"
  have z1: "opt_control ?optz = Some ?z" by (simp add: example_options_def)
  have z2: "\<not> isfile example_world ?z" by (simp add: example_world_def)
  have z3: "\<not> isdir example_world ?z" by (simp add: example_world_def)
  have z4: "str_split CHR '';'' ?z = [''0,0,0,0,0,0,0,0,0,0,0,0'', ''3'']" by simp
  have z5: "histogram_items ''0,0,0,0,0,0,0,0,0,0,0,0'' = []
            \<or> (those (map (py_float example_world) (histogram_items ''0,0,0,0,0,0,0,0,0,0,0,0''))
                  = Some ?zs
                 \<and> length ?zs = 12 \<and> np_sum example_world ?zs = Finite 0)"
    by (simp add: histogram_items_def example_defs eval_nat_numeral)
  have "\<exists>r. resolve_control example_world ?optz = Inr r"
    by (simp add: resolve_defs inline_defs example_defs)
  then obtain rz where rz: "resolve_control example_world ?optz = Inr rz" ..
  from inline_histogram_uniform_fallback [OF z1 z2 z3 z4 z5 rz] twelfth
  obtain cz where cz: "control rz = Repr cz"
    "pitch_histogram cz = replicate 12 (Finite (6004799503160661 / 2 ^ 56))"
    by auto
  from rz cz have second: "resolve_control example_world ?optz = Inr ?r"
    by (simp add: resolve_defs inline_defs example_defs)
  from first second show ?thesis by simp
qed

subsection \<open>Density range\<close>

text \<open>
  Claim C5. For an inline control whose density half reads as the integer \<open>n\<close>: when
  \<open>n\<close> is outside \<open>range(len(note_density_bins))\<close> the resolution fails; when \<open>n\<close> is
  inside, the density check of line 155 passes and the resolution does not fail by it.
\<close>

theorem inline_density_range:
  assumes "opt_control opt = Some s" and "\<not> isfile w s" and "\<not> isdir w s"
      and "str_split CHR '';'' s = [h, d]" and "py_int w d = Some n"
  shows "(n < 0 \<or> int (note_density_bins w) \<le> n \<longrightarrow> (\<exists>e. resolve_control w opt = Inl e))
         \<and> (0 \<le> n \<and> n < int (note_density_bins w) \<longrightarrow>
              parse_note_density w d = Inr n
              \<and> resolve_control w opt \<noteq> Inl Density_out_of_range)"
proof (intro conjI impI)
  assume out: "n < 0 \<or> int (note_density_bins w) \<le> n"
  have "parse_note_density w d = Inl Density_out_of_range"
    using assms(5) out by (auto simp: parse_note_density_def)
  then have "\<exists>e. inline_control w s = Inl e"
    using assms(4) by (auto simp: inline_control_def split: sum.splits)
  then show "\<exists>e. resolve_control w opt = Inl e"
    using assms(1-3) by (auto simp: resolve_control_def)
next
  assume inside: "0 \<le> n \<and> n < int (note_density_bins w)"
  then show nd: "parse_note_density w d = Inr n"
    using assms(5) by (simp add: parse_note_density_def)
  have "parse_pitch_histogram w h \<noteq> Inl Density_out_of_range"
    by (auto simp: parse_pitch_histogram_def Let_def split: option.splits if_splits)
  then have "inline_control w s \<noteq> Inl Density_out_of_range"
    using assms(4) nd by (auto simp: inline_control_def split: sum.splits)
  then show "resolve_control w opt \<noteq> Inl Density_out_of_range"
    using assms(1-3)
    by (auto simp: resolve_control_def repeat_batch_def split: sum.splits if_splits)
qed

theorem inline_density_range_witness:
  "resolve_control example_world (example_options (Some '';12'') 10) = Inl Density_out_of_range
   \<and> resolve_control example_world (example_options (Some '';-1'') 10) = Inl Density_out_of_range
   \<and> parse_note_density example_world ''11'' = Inr 11
   \<and> resolve_control example_world (example_options (Some '';11'') 10) =
       Inr \<lparr>max_len = 10,
            controls = Some [replicate 2
              (Finite 11 # replicate 12 (Finite (6004799503160661 / 2 ^ 56)))],
            control = Repr \<lparr>pitch_histogram =
                               replicate 12 (Finite (6004799503160661 / 2 ^ 56)),
                             note_density = 11\<rparr>\<rparr>"
proof -
  have a: "opt_control (example_options (Some '';12'') 10) = Some '';12''"
    "\<not> isfile example_world '';12''" "\<not> isdir example_world '';12''"
    "str_split CHR '';'' '';12'' = ['''', ''12'']" "py_int example_world ''12'' = Some 12"
    by (simp_all add: example_defs)
  from inline_density_range [OF a]
  have "\<exists>e. resolve_control example_world (example_options (Some '';12'') 10) = Inl e"
    by (simp add: example_world_def)
  then have r1: "resolve_control example_world (example_options (Some '';12'') 10)
                   = Inl Density_out_of_range"
    by (simp add: resolve_defs inline_defs example_defs)
  have b: "opt_control (example_options (Some '';-1'') 10) = Some '';-1''"
    "\<not> isfile example_world '';-1''" "\<not> isdir example_world '';-1''"
    "str_split CHR '';'' '';-1'' = ['''', ''-1'']" "py_int example_world ''-1'' = Some (- 1)"
    by (simp_all add: example_defs)
  from inline_density_range [OF b]
  have "\<exists>e. resolve_control example_world (example_options (Some '';-1'') 10) = Inl e"
    by simp
  then have r2: "resolve_control example_world (example_options (Some '';-1'') 10)
                   = Inl Density_out_of_range"
    by (simp add: resolve_defs inline_defs example_defs)
  have c: "opt_control (example_options (Some '';11'') 10) = Some '';11''"
    "\<not> isfile example_world '';11''" "\<not> isdir example_world '';11''"
    "str_split CHR '';'' '';11'' = ['''', ''11'']" "py_int example_world ''11'' = Some 11"
    by (simp_all add: example_defs)
  from inline_density_range [OF c]
  have r3: "parse_note_density example_world ''11'' = Inr 11"
    by (simp add: example_world_def)
  have r4: "resolve_control example_world (example_options (Some '';11'') 10) =
       Inr \<lparr>max_len = 10,
            controls = Some [replicate 2
              (Finite 11 # replicate 12 (Finite (6004799503160661 / 2 ^ 56)))],
            control = Repr \<lparr>pitch_histogram =
                               replicate 12 (Finite (6004799503160661 / 2 ^ 56)),
                             note_density = 11\<rparr>\<rparr>"
    by (simp add: resolve_defs inline_defs example_defs)
  from r1 r2 r3 r4 show ?thesis by simp
qed

subsection \<open>Length from a control file\<close>

text \<open>
  Claim C6. For a control argument that names an existing file and a max length left
  at 0, the resolution succeeds exactly when the file loads and decompresses (and the
  batch size is not negative), and the length it leaves is the step count of the
  recovered array.
\<close>

theorem length_from_control_file:
  assumes "opt_control opt = Some c" and "isfile w c" and "\<not> isdir w c"
      and "opt_max_len opt = 0"
  shows "(resolve_control w opt = Inr r) =
           (\<exists>cc a. torch_load w c = Some cc \<and> recover_compressed_array w cc = Some a
              \<and> 0 \<le> opt_batch_size opt
              \<and> r = \<lparr>max_len = int (length a),
                      controls = Some (map (\<lambda>v. replicate (nat (opt_batch_size opt)) v) a),
                      control = Control_sequence_from c\<rparr>)"
  using assms
  by (auto simp: resolve_control_def control_file_def load_controls_def repeat_batch_def
           split: option.splits sum.splits if_splits)

theorem length_from_control_file_witness:
  "resolve_control example_world (example_options (Some ''data/a.data'') 0) =
     Inr \<lparr>max_len = 3,
          controls = Some [[[Finite 1, Finite 0], [Finite 1, Finite 0]],
                           [[Finite 0, Finite 1], [Finite 0, Finite 1]],
                           [[Finite 1, Finite 1], [Finite 1, Finite 1]]],
          control = Control_sequence_from ''data/a.data''\<rparr>"
proof -
  have h: "opt_control (example_options (Some ''data/a.data'') 0) = Some ''data/a.data''"
    "isfile example_world ''data/a.data''" "\<not> isdir example_world ''data/a.data''"
    "opt_max_len (example_options (Some ''data/a.data'') 0) = 0"
    by (simp_all add: example_defs)
  show ?thesis
    unfolding length_from_control_file [OF h]
    by (simp add: example_defs numeral_2_eq_2)
qed

subsection \<open>Sampling strategy\<close>

text \<open>
  Claim C7. Exactly one strategy is invoked: beam search if and only if
  \<open>beam_size > 0\<close>, the greedy or temperature sampling otherwise; the greedy ratio is
  marked \<^verbatim>\<open>DISABLED\<close> exactly when beam search runs and the beam size exactly when it
  does not, and the call made carries the option of the active strategy as a number.
\<close>

theorem exactly_one_strategy:
  "is_beam_search (dispatch opt (sampling_settings opt) ml cs) = (0 < opt_beam_size opt)
   \<and> is_generate (dispatch opt (sampling_settings opt) ml cs) = (opt_beam_size opt \<le> 0)
   \<and> (greedy_ratio (sampling_settings opt) = DISABLED) = (0 < opt_beam_size opt)
   \<and> (beam_size (sampling_settings opt) = DISABLED) = (opt_beam_size opt \<le> 0)
   \<and> dispatch opt (sampling_settings opt) ml cs =
       (if 0 < opt_beam_size opt
        then Beam_search ml (Number (opt_beam_size opt)) cs (opt_temperature opt)
        else Generate ml cs (Number (opt_greedy_ratio opt)) (opt_temperature opt))"
  by (simp add: dispatch_def sampling_settings_def)

subsection \<open>Broadcast of an inline control\<close>



subsection \<open>Guard of the length inference\<close>

text \<open>
  Claim C9. The length is inferred from the control array only when the given max
  length is exactly 0: any other given value, a negative one too, is the value the
  resolution leaves. Every run past line 165 has a positive length, a length that is
  not positive after lines 129 to 163 aborts the run, and so does every negative
  \<^verbatim>\<open>-l\<close>, with or without a control file.
\<close>

theorem max_len_guard:
  "(\<forall>r. resolve_control w opt = Inr r \<longrightarrow> opt_max_len opt \<noteq> 0 \<longrightarrow> max_len r = opt_max_len opt)
   \<and> (\<forall>r. resolve w opt = Inr r \<longrightarrow> 0 < max_len r)
   \<and> (\<forall>r. resolve_control w opt = Inr r \<longrightarrow> max_len r \<le> 0 \<longrightarrow> resolve w opt = Inl No_length)
   \<and> (opt_max_len opt < 0 \<longrightarrow> (\<exists>e. resolve w opt = Inl e) \<and> (\<exists>e. run w opt = Inl e))"
proof -
  have keep: "max_len r = opt_max_len opt"
    if "resolve_control w opt = Inr r" and "opt_max_len opt \<noteq> 0" for r
    using that
    by (auto simp: resolve_control_def load_controls_def
             split: option.splits sum.splits if_splits)
  have pos: "0 < max_len r" if "resolve w opt = Inr r" for r
    using that by (auto simp: resolve_def check_max_len_def split: sum.splits if_splits)
  have abort: "resolve w opt = Inl No_length"
    if "resolve_control w opt = Inr r" and "max_len r \<le> 0" for r
    using that by (simp add: resolve_def check_max_len_def)
  have neg: "\<exists>e. resolve w opt = Inl e" if "opt_max_len opt < 0"
  proof (cases "resolve_control w opt")
    case (Inl e)
    then show ?thesis by (simp add: resolve_def)
  next
    case (Inr r)
    with keep [of r] that have "max_len r < 0" by simp
    with abort [OF Inr] show ?thesis by simp
  qed
  have negrun: "\<exists>e. run w opt = Inl e" if "opt_max_len opt < 0"
    using neg [OF that] by (auto simp: run_def Let_def)
  from keep pos abort neg negrun show ?thesis by blast
qed

theorem max_len_guard_witness:
  "resolve_control example_world (example_options (Some ''data/a.data'') (- 1)) =
     Inr \<lparr>max_len = - 1,
          controls = Some [[[Finite 1, Finite 0], [Finite 1, Finite 0]],
                           [[Finite 0, Finite 1], [Finite 0, Finite 1]],
                           [[Finite 1, Finite 1], [Finite 1, Finite 1]]],
          control = Control_sequence_from ''data/a.data''\<rparr>
   \<and> resolve example_world (example_options (Some ''data/a.data'') (- 1)) = Inl No_length
   \<and> run example_world (example_options None (- 1)) = Inl No_length"
proof -
  let ?opt = "example_options (Some ''data/a.data'') (- 1)"
  let ?r = "\<lparr>max_len = - 1,
          controls = Some [[[Finite 1, Finite 0], [Finite 1, Finite 0]],
                           [[Finite 0, Finite 1], [Finite 0, Finite 1]],
                           [[Finite 1, Finite 1], [Finite 1, Finite 1]]],
          control = Control_sequence_from ''data/a.data''\<rparr>"
  have rc: "resolve_control example_world ?opt = Inr ?r"
    by (simp add: resolve_defs example_defs numeral_2_eq_2)
  from max_len_guard [of example_world ?opt] rc
  have "resolve example_world ?opt = Inl No_length" by simp
  moreover have "run example_world (example_options None (- 1)) = Inl No_length"
    by (simp add: run_def resolve_defs example_defs)
  ultimately show ?thesis using rc by simp
qed

subsection \<open>Empty histogram items\<close>

text \<open>
  Claim C10. The empty items of the histogram half are dropped before any check. When
  the non-empty items read as 12 non-negative numbers the histogram is accepted,
  whatever the number of empty items; a leading comma, a trailing comma and a doubled
  comma leave the result unchanged.
\<close>

theorem empty_items_dropped:
  assumes "those (map (py_float w) (filter (\<lambda>s. s \<noteq> []) (str_split CHR '','' h))) = Some xs"
      and "length xs = 12" and "\<forall>x\<in>set xs. ge0 x"
  shows "parse_pitch_histogram w h =
           Inr (if truthy (np_sum w xs) then map (\<lambda>x. np_divide w x (np_sum w xs)) xs
                else uniform w)
         \<and> parse_pitch_histogram w (CHR '','' # h) = parse_pitch_histogram w h
         \<and> parse_pitch_histogram w (h @ '','') = parse_pitch_histogram w h
         \<and> parse_pitch_histogram w (a @ '',,'' @ b) = parse_pitch_histogram w (a @ '','' @ b)"
proof (intro conjI)
  have items: "those (map (py_float w) (histogram_items h)) = Some xs"
    using assms(1) by (simp add: histogram_items_def)
  then have "histogram_items h \<noteq> []" using assms(2) by auto
  with items assms(2,3)
  show "parse_pitch_histogram w h =
          Inr (if truthy (np_sum w xs) then map (\<lambda>x. np_divide w x (np_sum w xs)) xs
               else uniform w)"
    by (simp add: parse_pitch_histogram_def list_all_iff)
  show "parse_pitch_histogram w (CHR '','' # h) = parse_pitch_histogram w h"
    using histogram_items_append_comma [of "[]" h]
    by (intro parse_pitch_histogram_cong) (simp add: histogram_items_Nil)
  show "parse_pitch_histogram w (h @ '','') = parse_pitch_histogram w h"
    using histogram_items_append_comma [of h "[]"]
    by (intro parse_pitch_histogram_cong) (simp add: histogram_items_Nil)
  show "parse_pitch_histogram w (a @ '',,'' @ b) = parse_pitch_histogram w (a @ '','' @ b)"
    using histogram_items_append_comma [of a "CHR '','' # b"]
      histogram_items_append_comma [of "[]" b] histogram_items_append_comma [of a b]
    by (intro parse_pitch_histogram_cong) (simp add: histogram_items_Nil)
qed

theorem empty_items_dropped_witness:
  "parse_pitch_histogram example_world '',2,0,1,1,,0,1,0,1,1,0,0,1,'' =
     Inr (map Finite [1/4, 0, 1/8, 1/8, 0, 1/8, 0, 1/8, 1/8, 0, 0, 1/8])
   \<and> parse_pitch_histogram example_world '',,2,0,1,1,,0,1,0,1,1,0,0,1,'' =
     parse_pitch_histogram example_world '',2,0,1,1,,0,1,0,1,1,0,0,1,''"
proof -
  let ?h = "'',2,0,1,1,,0,1,0,1,1,0,0,1,''"
  let ?xs = "map Finite [2, 0, 1, 1, 0, 1, 0, 1, 1, 0, 0, 1]"
  have h1: "those (map (py_float example_world)
              (filter (\<lambda>s. s \<noteq> []) (str_split CHR '','' ?h))) = Some ?xs"
    by (simp add: example_defs)
  have h2: "length ?xs = 12" by simp
  have h3: "\<forall>x\<in>set ?xs. ge0 x" by simp
  have sum: "np_sum example_world ?xs = Finite 8" by (simp add: example_defs)
  from empty_items_dropped [OF h1 h2 h3, of "[]" "[]"] sum
  show ?thesis by (simp add: example_defs)
qed

end
